theory Spec2Isabelle
  imports Complex_Main
begin

section \<open>JavaScript values, numbers and strings\<close>

text \<open>
  The service is three successive versions of one Express application \<^verbatim>\<open>app.js\<close>:
  the strict version (\<^verbatim>\<open>validator.isURL\<close>, reachability probe, shared \<^verbatim>\<open>enhanceImage\<close>),
  the inline version (one POST handler, \<^verbatim>\<open>new URL\<close>) and the basic shared version
  (\<^verbatim>\<open>new URL\<close>, shared \<^verbatim>\<open>enhanceImage\<close>). Strings are lists of 8-bit characters, so
  the model covers strings of Latin-1 code units.

  A JavaScript number is modelled as \<open>NaN\<close> or the real it denotes. The numbers met
  here are integers parsed from a header, rounded to the nearest double as \<^verbatim>\<open>parseInt\<close>
  does, and their quotient by 1024, which is exact. Infinities are not modelled.
\<close>

datatype js_number = NaN | Num real

datatype js_value =
    JUndefined
  | JNull
  | JBool bool
  | JNumber js_number
  | JString string
  | JObject

text \<open>\<^verbatim>\<open>!v\<close> is false exactly for the truthy values.\<close>

fun truthy :: "js_value \<Rightarrow> bool" where
  "truthy JUndefined = False"
| "truthy JNull = False"
| "truthy (JBool b) = b"
| "truthy (JNumber NaN) = False"
| "truthy (JNumber (Num q)) = (q \<noteq> 0)"
| "truthy (JString s) = (s \<noteq> [])"
| "truthy JObject = True"

text \<open>
  White space as \<^verbatim>\<open>\s\<close> and \<^verbatim>\<open>parseInt\<close> see it, among 8-bit characters: TAB, LF, VT, FF,
  CR, SPACE and NO-BREAK SPACE.
\<close>

definition is_space :: "char \<Rightarrow> bool" where
  "is_space c = (c \<in> set [CHR 0x09, CHR 0x0A, CHR 0x0B, CHR 0x0C, CHR 0x0D, CHR 0x20, CHR 0xA0])"

definition is_digit :: "char \<Rightarrow> bool" where
  "is_digit c = (c \<in> set ''0123456789'')"

definition digit_val :: "char \<Rightarrow> nat" where
  "digit_val c = of_char c - 48"

text \<open>The value of a string of decimal digits, most significant digit first.\<close>

definition digits_value :: "string \<Rightarrow> nat" where
  "digits_value ds = foldl (\<lambda>acc c. 10 * acc + digit_val c) 0 ds"

text \<open>
  The double nearest to a natural number (ties to the even significand): numbers below
  \<open>2 ^ 53\<close> are doubles; a larger one keeps its 53 leading bits, rounded by the bits
  that are cut. Overflow to \<^verbatim>\<open>Infinity\<close> (from \<open>2 ^ 1024\<close> on) is not modelled.
\<close>

fun double_exponent :: "nat \<Rightarrow> nat" where
  "double_exponent n = (if n < 2 ^ 53 then 0 else Suc (double_exponent (n div 2)))"

declare double_exponent.simps [simp del]

definition to_double :: "nat \<Rightarrow> nat" where
  "to_double n =
     (let e = double_exponent n; q = n div 2 ^ e; r = n mod 2 ^ e
      in if 2 ^ e < 2 * r \<or> (2 * r = 2 ^ e \<and> odd q) then (q + 1) * 2 ^ e else q * 2 ^ e)"

text \<open>
  \<^verbatim>\<open>parseInt(s, 10)\<close>: skip leading white space, read an optional sign, take the longest
  prefix of decimal digits; no digit gives \<open>NaN\<close>, otherwise the result is the double
  nearest to the integer the digits denote (for more than 20 significant digits an
  implementation may round differently).
\<close>

definition parseInt10 :: "string \<Rightarrow> js_number" where
  "parseInt10 s =
     (let s1 = dropWhile is_space s;
          sign = (case s1 of c # _ \<Rightarrow> (if c = CHR ''-'' then (-1::int) else 1) | [] \<Rightarrow> 1);
          s2 = (case s1 of c # r \<Rightarrow> (if c = CHR ''+'' \<or> c = CHR ''-'' then r else s1) | [] \<Rightarrow> s1);
          z = takeWhile is_digit s2
      in if z = [] then NaN else Num (of_int (sign * int (to_double (digits_value z)))))"

text \<open>\<^verbatim>\<open>x / d\<close> for a non-zero constant divisor \<open>d\<close>.\<close>

fun js_div :: "js_number \<Rightarrow> real \<Rightarrow> js_number" where
  "js_div NaN d = NaN"
| "js_div (Num q) d = Num (q / d)"

text \<open>The decimal digits of a natural number, as \<^verbatim>\<open>String(n)\<close> writes them.\<close>

fun show_nat :: "nat \<Rightarrow> string" where
  "show_nat n = (if n < 10 then [''0123456789'' ! n] else show_nat (n div 10) @ [''0123456789'' ! (n mod 10)])"

declare show_nat.simps [simp del]

text \<open>
  \<^verbatim>\<open>x.toFixed(f)\<close> for \<open>\<bar>x\<bar> < 10 ^ 21\<close>: \<open>NaN\<close> prints as \<^verbatim>\<open>NaN\<close>; otherwise take the
  integer \<open>n\<close> closest to \<open>\<bar>x\<bar> * 10 ^ f\<close> (the larger one on a tie), write its digits,
  pad them with zeros to \<open>f + 1\<close> digits, put the point before the last \<open>f\<close> digits
  and the sign of a negative \<open>x\<close> in front.
\<close>

definition place_point :: "string \<Rightarrow> nat \<Rightarrow> string" where
  "place_point m f =
     (if f = 0 then m
      else
        (let m' = (if length m \<le> f then replicate (f + 1 - length m) CHR ''0'' @ m else m)
         in take (length m' - f) m' @ ''.'' @ drop (length m' - f) m'))"

definition toFixed :: "js_number \<Rightarrow> nat \<Rightarrow> string" where
  "toFixed x f =
     (case x of
        NaN \<Rightarrow> ''NaN''
      | Num q \<Rightarrow>
          (if q < 0 then ''-'' else '''')
          @ place_point (show_nat (nat \<lfloor>\<bar>q\<bar> * 10 ^ f + 1 / 2\<rfloor>)) f)"

text \<open>\<^verbatim>\<open>h || d\<close> for a header value that may be absent: an absent or empty value gives \<open>d\<close>.\<close>

fun or_default :: "string option \<Rightarrow> string \<Rightarrow> string" where
  "or_default None d = d"
| "or_default (Some s) d = (if s = [] then d else s)"

text \<open>\<^verbatim>\<open>s.startsWith(p)\<close>.\<close>

definition startsWith :: "string \<Rightarrow> string \<Rightarrow> bool" where
  "startsWith s p = (take (length p) s = p)"

section \<open>Collaborators\<close>

text \<open>
  Everything the program throws or catches is an \<^verbatim>\<open>Error\<close> object of which only
  \<^verbatim>\<open>.message\<close> is ever read, so a thrown value is its message. Rejections with
  \<^verbatim>\<open>null\<close> or \<^verbatim>\<open>undefined\<close> are not modelled.
\<close>

datatype thrown = Error string

fun message :: "thrown \<Rightarrow> string" where
  "message (Error m) = m"

text \<open>The options object passed to \<^verbatim>\<open>validator.isURL\<close> by the strict version.\<close>

record isURL_options =
  protocols :: "string list"
  require_protocol :: bool
  require_valid_protocol :: bool
  require_host :: bool

text \<open>
  What a header-only request ends in once redirects are followed, before the status is
  judged: no usable response (network error, timeout, too many redirects) with the
  library's message, or a final response with its status and headers (names in lower
  case).
\<close>

datatype head_outcome =
    NoResponse string
  | Response nat "(string \<times> string) list"

text \<open>
  The collaborators are parameters: the \<^verbatim>\<open>validator\<close> package, the built-in \<^verbatim>\<open>URL\<close>
  constructor, the network behind \<^verbatim>\<open>axios.head\<close>, axios' defaults, and the provider
  \<^verbatim>\<open>remini\<close> of \<^verbatim>\<open>betabotz-tools\<close>. An environment fixes how they answer during one
  run: a request that a run repeats gets the same answer.
\<close>

record env =
  validator_isURL :: "js_value \<Rightarrow> isURL_options \<Rightarrow> thrown + bool"
  trim_non_string :: "js_value \<Rightarrow> thrown + string"
  new_URL_ok :: "js_value \<Rightarrow> bool"
  http_head :: "js_value \<Rightarrow> nat \<Rightarrow> nat \<Rightarrow> head_outcome"
  bad_status_message :: "nat \<Rightarrow> string"
  default_validateStatus :: "nat \<Rightarrow> bool"
  remini :: "js_value \<Rightarrow> thrown + js_value"

text \<open>The calls a run makes to its collaborators, in order.\<close>

datatype call =
    CallTrim js_value
  | CallIsURL js_value isURL_options
  | CallNewURL js_value
  | CallHead js_value nat nat
  | CallRemini js_value

text \<open>
  A computation yields the calls it made and either the value thrown (a rejected
  promise) or its result.
\<close>

type_synonym 'a io = "call list \<times> (thrown + 'a)"

definition io_return :: "'a \<Rightarrow> 'a io" where
  "io_return x = ([], Inr x)"

definition io_throw :: "thrown \<Rightarrow> 'a io" where
  "io_throw e = ([], Inl e)"

definition io_bind :: "'a io \<Rightarrow> ('a \<Rightarrow> 'b io) \<Rightarrow> 'b io" where
  "io_bind m f =
     (case m of
        (t, Inl e) \<Rightarrow> (t, Inl e)
      | (t, Inr x) \<Rightarrow> (case f x of (t', r) \<Rightarrow> (t @ t', r)))"

text \<open>\<^verbatim>\<open>try { m } catch (e) { h e }\<close>.\<close>

definition io_catch :: "'a io \<Rightarrow> (thrown \<Rightarrow> 'a io) \<Rightarrow> 'a io" where
  "io_catch m h =
     (case m of
        (t, Inl e) \<Rightarrow> (case h e of (t', r) \<Rightarrow> (t @ t', r))
      | (t, Inr x) \<Rightarrow> (t, Inr x))"

text \<open>
  Modelled from the spec: \<^verbatim>\<open>validator.trim\<close>, a function of the \<^verbatim>\<open>validator\<close> package
  whose source is not part of the repository. On a string it removes leading and
  trailing white space; what it does on a value that is not a string (the package
  throws a \<^verbatim>\<open>TypeError\<close>) is left to the environment.
\<close>

definition trim_ws :: "string \<Rightarrow> string" where
  "trim_ws s = rev (dropWhile is_space (rev (dropWhile is_space s)))"

definition validator_trim :: "env \<Rightarrow> js_value \<Rightarrow> string io" where
  "validator_trim env v =
     ([CallTrim v],
      case v of JString s \<Rightarrow> Inr (trim_ws s) | _ \<Rightarrow> trim_non_string env v)"

definition validator_isURL_call :: "env \<Rightarrow> js_value \<Rightarrow> isURL_options \<Rightarrow> bool io" where
  "validator_isURL_call env v opts = ([CallIsURL v opts], validator_isURL env v opts)"

text \<open>\<^verbatim>\<open>new URL(v)\<close> either constructs a URL or throws; only that is observed.\<close>

definition new_URL :: "env \<Rightarrow> js_value \<Rightarrow> unit io" where
  "new_URL env v =
     ([CallNewURL v], if new_URL_ok env v then Inr () else Inl (Error ''Invalid URL''))"

definition remini_call :: "env \<Rightarrow> js_value \<Rightarrow> js_value io" where
  "remini_call env v = ([CallRemini v], remini env v)"

text \<open>
  The request configuration of \<^verbatim>\<open>axios.head\<close>; without \<^verbatim>\<open>validateStatus\<close> axios
  applies its default.
\<close>

record head_config =
  timeout :: nat
  maxRedirects :: nat
  validateStatus :: "(nat \<Rightarrow> bool) option"

record head_response =
  status :: nat
  headers :: "(string \<times> string) list"

text \<open>
  \<^verbatim>\<open>axios.head(url, config)\<close>: the promise is rejected when there is no usable response
  or when \<^verbatim>\<open>validateStatus\<close> refuses the status.
\<close>

definition axios_head :: "env \<Rightarrow> js_value \<Rightarrow> head_config \<Rightarrow> head_response io" where
  "axios_head env url cfg =
     ([CallHead url (timeout cfg) (maxRedirects cfg)],
      case http_head env url (timeout cfg) (maxRedirects cfg) of
        NoResponse m \<Rightarrow> Inl (Error m)
      | Response st hs \<Rightarrow>
          (let accept = (case validateStatus cfg of None \<Rightarrow> default_validateStatus env | Some f \<Rightarrow> f)
           in if accept st then Inr \<lparr>status = st, headers = hs\<rparr>
              else Inl (Error (bad_status_message env st))))"

section \<open>The strict version\<close>

definition isURL_strict_options :: isURL_options where
  "isURL_strict_options =
     \<lparr>protocols = [''http'', ''https''], require_protocol = True,
      require_valid_protocol = True, require_host = True\<rparr>"

definition isValidUrl :: "env \<Rightarrow> js_value \<Rightarrow> bool io" where
  "isValidUrl env url =
     io_catch (validator_isURL_call env url isURL_strict_options) (\<lambda>error. io_return False)"

definition size_probe_config :: head_config where
  "size_probe_config =
     \<lparr>timeout = 5000, maxRedirects = 3,
      validateStatus = Some (\<lambda>status. (status \<ge> 200 \<and> status < 300) \<or> status = 403)\<rparr>"

definition getFileSize :: "env \<Rightarrow> js_value \<Rightarrow> string io" where
  "getFileSize env url =
     io_catch
       (io_bind (axios_head env url size_probe_config) (\<lambda>response.
          let sizeInBytes = parseInt10 (or_default (map_of (headers response) ''content-length'') ''0'');
              sizeInKB = toFixed (js_div sizeInBytes 1024) 2
          in io_return (sizeInKB @ '' KB'')))
       (\<lambda>error. io_return ''Unknown'')"

definition reachability_config :: head_config where
  "reachability_config =
     \<lparr>timeout = 5000, maxRedirects = 3,
      validateStatus = Some (\<lambda>status. status \<ge> 200 \<and> status < 300)\<rparr>"

record enhancement_result =
  original_url :: string
  image_data :: js_value
  image_size :: string

text \<open>
  \<^verbatim>\<open>enhanceImage\<close> of the strict version. The content-type check throws inside the
  \<^verbatim>\<open>try\<close> block whose \<^verbatim>\<open>catch\<close> rethrows every error as
  \<^verbatim>\<open>Cannot access the specified image\<close>.
\<close>

definition enhanceImage :: "env \<Rightarrow> js_value \<Rightarrow> enhancement_result io" where
  "enhanceImage env url =
     (if \<not> truthy url then io_throw (Error ''URL is required'')
      else
        io_bind (validator_trim env url) (\<lambda>sanitizedUrl.
        io_bind (isValidUrl env (JString sanitizedUrl)) (\<lambda>valid.
        if \<not> valid then io_throw (Error ''Invalid URL format or protocol'')
        else
          io_bind
            (io_catch
               (io_bind (axios_head env (JString sanitizedUrl) reachability_config) (\<lambda>headResponse.
                  let contentType = map_of (headers headResponse) ''content-type''
                  in if (case contentType of None \<Rightarrow> True
                         | Some ct \<Rightarrow> ct = [] \<or> \<not> startsWith ct ''image/'')
                     then io_throw (Error ''URL does not point to a valid image'')
                     else io_return ()))
               (\<lambda>accessError. io_throw (Error ''Cannot access the specified image'')))
            (\<lambda>_.
          io_bind
            (io_catch (remini_call env (JString sanitizedUrl))
               (\<lambda>reminiError. io_throw (Error ''Failed to enhance the image'')))
            (\<lambda>enhancedImageUrl.
          io_bind
            (if \<not> truthy enhancedImageUrl then io_return False
             else isValidUrl env enhancedImageUrl)
            (\<lambda>usable.
          if \<not> usable then io_throw (Error ''Enhanced image URL is invalid'')
          else
            io_bind (getFileSize env enhancedImageUrl) (\<lambda>size.
            io_return
              \<lparr>original_url = sanitizedUrl, image_data = enhancedImageUrl,
               image_size = size\<rparr>)))))))"

text \<open>
  The HTTP boundary. A request carries the \<^verbatim>\<open>url\<close> member of its JSON body and the
  \<^verbatim>\<open>url\<close> query parameter (\<open>JUndefined\<close> when missing); a response is a status and a JSON
  body: a result, or an object with \<^verbatim>\<open>error\<close>, \<^verbatim>\<open>message\<close> and, in the inline version,
  \<^verbatim>\<open>details\<close>. A handler is a computation of the response it sends.
\<close>

record request =
  body_url :: js_value
  query_url :: js_value

record basic_result =
  basic_image_data :: js_value
  basic_image_size :: string

datatype response_body =
    EnhancedBody enhancement_result
  | BasicBody basic_result
  | ErrorBody string string "string option"

record http_response =
  status_code :: nat
  body :: response_body

text \<open>\<^verbatim>\<open>error.message || d\<close>.\<close>

definition message_or :: "thrown \<Rightarrow> string \<Rightarrow> string" where
  "message_or e d = (if message e = [] then d else message e)"

definition post_enhance_image :: "env \<Rightarrow> request \<Rightarrow> http_response io" where
  "post_enhance_image env req =
     io_catch
       (io_bind (enhanceImage env (body_url req)) (\<lambda>result.
          io_return \<lparr>status_code = 200, body = EnhancedBody result\<rparr>))
       (\<lambda>error.
          io_return
            \<lparr>status_code = 400,
             body = ErrorBody ''ENHANCEMENT_FAILED''
                      (message_or error ''An unexpected error occurred'') None\<rparr>)"

definition get_enhance_image :: "env \<Rightarrow> request \<Rightarrow> http_response io" where
  "get_enhance_image env req =
     io_catch
       (io_bind (enhanceImage env (query_url req)) (\<lambda>result.
          io_return \<lparr>status_code = 200, body = EnhancedBody result\<rparr>))
       (\<lambda>error.
          io_return
            \<lparr>status_code = 400,
             body = ErrorBody ''ENHANCEMENT_FAILED''
                      (message_or error ''An unexpected error occurred'') None\<rparr>)"

text \<open>The global error handler, the same in the three versions.\<close>

definition global_error_handler :: "thrown \<Rightarrow> http_response" where
  "global_error_handler err =
     \<lparr>status_code = 500,
      body = ErrorBody ''INTERNAL_SERVER_ERROR'' ''An unexpected server error occurred'' None\<rparr>"

section \<open>The basic versions\<close>

text \<open>
  The inline and the basic shared version have the same \<^verbatim>\<open>isValidUrl\<close> and
  \<^verbatim>\<open>getFileSize\<close>.
\<close>

definition isValidUrl_basic :: "env \<Rightarrow> js_value \<Rightarrow> bool io" where
  "isValidUrl_basic env url =
     io_catch (io_bind (new_URL env url) (\<lambda>_. io_return True)) (\<lambda>error. io_return False)"

definition basic_probe_config :: head_config where
  "basic_probe_config = \<lparr>timeout = 5000, maxRedirects = 3, validateStatus = None\<rparr>"

definition getFileSize_basic :: "env \<Rightarrow> js_value \<Rightarrow> string io" where
  "getFileSize_basic env url =
     io_catch
       (io_bind (axios_head env url basic_probe_config) (\<lambda>response.
          let sizeInBytes = parseInt10 (or_default (map_of (headers response) ''content-length'') ''0'');
              sizeInKB = toFixed (js_div sizeInBytes 1024) 2
          in io_return (sizeInKB @ '' KB'')))
       (\<lambda>error. io_return ''Unknown'')"

text \<open>\<^verbatim>\<open>enhanceImage\<close> of the basic shared version.\<close>

definition enhanceImage_basic :: "env \<Rightarrow> js_value \<Rightarrow> basic_result io" where
  "enhanceImage_basic env url =
     (if \<not> truthy url then io_throw (Error ''URL is required'')
      else
        io_bind (isValidUrl_basic env url) (\<lambda>valid.
        if \<not> valid then io_throw (Error ''Invalid URL format'')
        else
          io_bind
            (io_catch (remini_call env url)
               (\<lambda>reminiError. io_throw (Error ''Failed to enhance the image'')))
            (\<lambda>enhancedImageUrl.
          io_bind
            (if \<not> truthy enhancedImageUrl then io_return False
             else isValidUrl_basic env enhancedImageUrl)
            (\<lambda>usable.
          if \<not> usable then io_throw (Error ''Enhanced image URL is invalid'')
          else
            io_bind (getFileSize_basic env enhancedImageUrl) (\<lambda>size.
            io_return \<lparr>basic_image_data = enhancedImageUrl, basic_image_size = size\<rparr>)))))"

definition post_enhance_image_basic :: "env \<Rightarrow> request \<Rightarrow> http_response io" where
  "post_enhance_image_basic env req =
     io_catch
       (io_bind (enhanceImage_basic env (body_url req)) (\<lambda>result.
          io_return \<lparr>status_code = 200, body = BasicBody result\<rparr>))
       (\<lambda>error.
          io_return
            \<lparr>status_code = 400,
             body = ErrorBody ''ENHANCEMENT_FAILED''
                      (message_or error ''An unexpected error occurred'') None\<rparr>)"

definition get_enhance_image_basic :: "env \<Rightarrow> request \<Rightarrow> http_response io" where
  "get_enhance_image_basic env req =
     io_catch
       (io_bind (enhanceImage_basic env (query_url req)) (\<lambda>result.
          io_return \<lparr>status_code = 200, body = BasicBody result\<rparr>))
       (\<lambda>error.
          io_return
            \<lparr>status_code = 400,
             body = ErrorBody ''ENHANCEMENT_FAILED''
                      (message_or error ''An unexpected error occurred'') None\<rparr>)"

text \<open>
  The POST handler of the inline version. A \<^verbatim>\<open>return res.status(..).json(..)\<close> ends the
  handler with that response; the \<^verbatim>\<open>catch\<close> around the provider call returns too, so
  the outcome of the call is taken as a value first.
\<close>

definition io_try :: "'a io \<Rightarrow> (thrown + 'a) io" where
  "io_try m = (fst m, Inr (snd m))"

definition post_enhance_image_inline :: "env \<Rightarrow> request \<Rightarrow> http_response io" where
  "post_enhance_image_inline env req =
     io_catch
       (let url = body_url req in
        if \<not> truthy url then
          io_return
            \<lparr>status_code = 400,
             body = ErrorBody ''URL_REQUIRED''
                      ''Please provide an image URL in the request body'' None\<rparr>
        else
          io_bind (isValidUrl_basic env url) (\<lambda>valid.
          if \<not> valid then
            io_return
              \<lparr>status_code = 400,
               body = ErrorBody ''INVALID_URL'' ''The provided URL is not valid'' None\<rparr>
          else
            io_bind (io_try (remini_call env url)) (\<lambda>outcome.
            case outcome of
              Inl reminiError \<Rightarrow>
                io_return
                  \<lparr>status_code = 500,
                   body = ErrorBody ''ENHANCEMENT_FAILED'' ''Failed to enhance the image''
                            (Some (message_or reminiError ''Unknown error occurred''))\<rparr>
            | Inr enhancedImageUrl \<Rightarrow>
                io_bind
                  (if \<not> truthy enhancedImageUrl then io_return False
                   else isValidUrl_basic env enhancedImageUrl)
                  (\<lambda>usable.
                if \<not> usable then
                  io_return
                    \<lparr>status_code = 500,
                     body = ErrorBody ''INVALID_RESULT'' ''Enhanced image URL is invalid'' None\<rparr>
                else
                  io_bind (getFileSize_basic env enhancedImageUrl) (\<lambda>image_size.
                  io_return
                    \<lparr>status_code = 200,
                     body = BasicBody
                              \<lparr>basic_image_data = enhancedImageUrl,
                               basic_image_size = image_size\<rparr>\<rparr>)))))
       (\<lambda>error.
          io_return
            \<lparr>status_code = 500,
             body = ErrorBody ''UNEXPECTED_ERROR''
                      ''An unexpected error occurred during image enhancement''
                      (Some (message_or error ''Unknown error''))\<rparr>)"

section \<open>Example environments\<close>

text \<open>
  Stand-ins for the collaborators, used to evaluate the functions on concrete inputs.
  The stand-in validator and URL constructor accept exactly the two URLs of the
  examples; the network answers \<open>source_probe\<close> for the submitted URL and
  \<open>size_probe\<close> for the enhanced one; the provider ends in \<open>provider\<close>.
\<close>

definition example_urls :: "string list" where
  "example_urls = [''https://example.com/in.png'', ''https://example.com/out.png'']"

definition example_env :: "head_outcome \<Rightarrow> thrown + js_value \<Rightarrow> head_outcome \<Rightarrow> env" where
  "example_env source_probe provider size_probe =
     \<lparr>validator_isURL =
        (\<lambda>v opts. case v of JString s \<Rightarrow> Inr (s \<in> set example_urls)
                   | _ \<Rightarrow> Inl (Error ''Expected a string'')),
      trim_non_string = (\<lambda>v. Inl (Error ''Expected a string'')),
      new_URL_ok = (\<lambda>v. case v of JString s \<Rightarrow> s \<in> set example_urls | _ \<Rightarrow> False),
      http_head =
        (\<lambda>v t r. if v = JString ''https://example.com/in.png'' then source_probe
                  else if v = JString ''https://example.com/out.png'' then size_probe
                  else NoResponse ''getaddrinfo ENOTFOUND''),
      bad_status_message = (\<lambda>st. ''Request failed with status code '' @ show_nat st),
      default_validateStatus = (\<lambda>st. 200 \<le> st \<and> st < 300),
      remini = (\<lambda>v. provider)\<rparr>"

section \<open>The size label as the specification words it\<close>


section \<open>Answers of two environments\<close>




section \<open>Concurrent runs\<close>

text \<open>
  A run of the strict \<^verbatim>\<open>enhanceImage\<close> between its awaits. It is suspended three times:
  on the reachability probe (line 75), on the provider (line 96) and, within
  \<^verbatim>\<open>getFileSize\<close>, on the size probe (lines 108 and 33). A task is a run that has not
  started, a suspended run with the local variables it holds at that await, or a
  settled one. A step runs the code of the source from one await to the next, with the
  answer that was awaited. The run has no other variables: the module's own
  (\<^verbatim>\<open>app\<close>, \<^verbatim>\<open>PORT\<close>, \<^verbatim>\<open>server\<close>) are neither read nor written by it.
\<close>

datatype task =
    Ready js_value
  | AwaitProbe string
  | AwaitProvider string
  | AwaitSize string js_value
  | Settled "thrown + enhancement_result"

fun step :: "env \<Rightarrow> task \<Rightarrow> task" where
  "step env (Ready url) =
     (if \<not> truthy url then Settled (Inl (Error ''URL is required''))
      else
        (case snd (validator_trim env url) of
           Inl e \<Rightarrow> Settled (Inl e)
         | Inr sanitizedUrl \<Rightarrow>
             (case snd (isValidUrl env (JString sanitizedUrl)) of
                Inl e \<Rightarrow> Settled (Inl e)
              | Inr valid \<Rightarrow>
                  if \<not> valid then Settled (Inl (Error ''Invalid URL format or protocol''))
                  else AwaitProbe sanitizedUrl)))"
| "step env (AwaitProbe sanitizedUrl) =
     (case snd (io_catch
                 (io_bind (axios_head env (JString sanitizedUrl) reachability_config) (\<lambda>headResponse.
                    let contentType = map_of (headers headResponse) ''content-type''
                    in if (case contentType of None \<Rightarrow> True
                           | Some ct \<Rightarrow> ct = [] \<or> \<not> startsWith ct ''image/'')
                       then io_throw (Error ''URL does not point to a valid image'')
                       else io_return ()))
                 (\<lambda>accessError. io_throw (Error ''Cannot access the specified image''))) of
        Inl e \<Rightarrow> Settled (Inl e)
      | Inr _ \<Rightarrow> AwaitProvider sanitizedUrl)"
| "step env (AwaitProvider sanitizedUrl) =
     (case snd (io_catch (remini_call env (JString sanitizedUrl))
                 (\<lambda>reminiError. io_throw (Error ''Failed to enhance the image''))) of
        Inl e \<Rightarrow> Settled (Inl e)
      | Inr enhancedImageUrl \<Rightarrow>
          (case snd (if \<not> truthy enhancedImageUrl then io_return False
                     else isValidUrl env enhancedImageUrl) of
             Inl e \<Rightarrow> Settled (Inl e)
           | Inr usable \<Rightarrow>
               if \<not> usable then Settled (Inl (Error ''Enhanced image URL is invalid''))
               else AwaitSize sanitizedUrl enhancedImageUrl))"
| "step env (AwaitSize sanitizedUrl enhancedImageUrl) =
     (case snd (getFileSize env enhancedImageUrl) of
        Inl e \<Rightarrow> Settled (Inl e)
      | Inr label \<Rightarrow>
          Settled (Inr \<lparr>original_url = sanitizedUrl, image_data = enhancedImageUrl,
                        image_size = label\<rparr>))"
| "step env (Settled r) = Settled r"

text \<open>
  The runs in flight are a list of tasks. The event loop resumes one of them at a time,
  in any order; a schedule lists the runs it resumes.
\<close>

definition resume :: "env \<Rightarrow> task list \<Rightarrow> nat \<Rightarrow> task list" where
  "resume env ts i = (if i < length ts then ts[i := step env (ts ! i)] else ts)"

definition run_schedule :: "env \<Rightarrow> nat list \<Rightarrow> task list \<Rightarrow> task list" where
  "run_schedule env sched ts = foldl (resume env) ts sched"

section \<open>Computations\<close>

lemma show_nat_small: "n < 10 \<Longrightarrow> show_nat n = [''0123456789'' ! n]"
  by (simp add: show_nat.simps)


lemma io_bind_Inl [simp]: "io_bind (t, Inl e) f = (t, Inl e)"
  by (simp add: io_bind_def)

lemma io_bind_Inr [simp]: "io_bind (t, Inr x) f = (t @ fst (f x), snd (f x))"
  by (simp add: io_bind_def split: prod.splits)

lemma io_catch_Inl [simp]: "io_catch (t, Inl e) h = (t @ fst (h e), snd (h e))"
  by (simp add: io_catch_def split: prod.splits)

lemma io_catch_Inr [simp]: "io_catch (t, Inr x) h = (t, Inr x)"
  by (simp add: io_catch_def)

lemma io_return_simps [simp]: "fst (io_return x) = []" "snd (io_return x) = Inr x"
  by (simp_all add: io_return_def)

lemma io_throw_simps [simp]: "fst (io_throw e) = []" "snd (io_throw e) = Inl e"
  by (simp_all add: io_throw_def)

lemma io_bind_return [simp]: "io_bind (io_return x) f = f x"
  by (simp add: io_return_def)

lemma io_bind_throw [simp]: "io_bind (io_throw e) f = io_throw e"
  by (simp add: io_throw_def)

lemma io_catch_return [simp]: "io_catch (io_return x) h = io_return x"
  by (simp add: io_return_def)

lemma io_catch_throw [simp]: "io_catch (io_throw e) h = h e"
  by (simp add: io_throw_def)

text \<open>
  C2 characterises the strings that \<^verbatim>\<open>validator.isURL\<close> accepts. The library is a
  collaborator of this program and a parameter here, so that characterisation is left
  open. What the program adds to the library call is settled: \<^verbatim>\<open>isValidUrl\<close> of the
  strict version never throws; whatever the library call does, the result is a boolean,
  true exactly when the library returned true. It passes its argument on unchanged:
  trimming is done by \<^verbatim>\<open>enhanceImage\<close>, and only for the submitted URL.
\<close>

lemma isValidUrl_eq:
  "isValidUrl env v =
     ([CallIsURL v isURL_strict_options],
      Inr (validator_isURL env v isURL_strict_options = Inr True))"
  by (cases "validator_isURL env v isURL_strict_options")
     (simp_all add: isValidUrl_def validator_isURL_call_def)

lemma trim_ws_all_space:
  assumes "\<forall>c \<in> set s. is_space c"
  shows "trim_ws s = []"
proof -
  have d: "dropWhile is_space s = []"
    using assms by simp
  show ?thesis unfolding trim_ws_def d by simp
qed

section \<open>The presence check\<close>

text \<open>
  C8. In the strict version, \<^verbatim>\<open>enhanceImage(undefined)\<close> and \<^verbatim>\<open>enhanceImage("")\<close> fail with
  \<^verbatim>\<open>URL is required\<close> (the MissingUrl failure) in every environment, and the run
  has called no collaborator by then: nothing is trimmed, validated or requested.
\<close>

theorem enhanceImage_missing_url:
  "enhanceImage env JUndefined = ([], Inl (Error ''URL is required''))
   \<and> enhanceImage env (JString '''') = ([], Inl (Error ''URL is required''))"
  by (simp add: enhanceImage_def io_throw_def)

theorem enhanceImage_missing_url_witness:
  "enhanceImage
     (example_env (Response 200 [(''content-type'', ''image/png'')])
        (Inr (JString ''https://example.com/out.png''))
        (Response 200 [(''content-length'', ''204800'')]))
     JUndefined = ([], Inl (Error ''URL is required''))"
  using enhanceImage_missing_url
    [of "example_env (Response 200 [(''content-type'', ''image/png'')])
          (Inr (JString ''https://example.com/out.png''))
          (Response 200 [(''content-length'', ''204800'')])"]
  by simp

text \<open>
  C10. In the strict version a non-empty string of white space only is truthy, so it
  passes the presence check; it is trimmed to the empty string, and when the validator
  library does not accept the empty string the run fails with
  \<^verbatim>\<open>Invalid URL format or protocol\<close> (InvalidUrl, not MissingUrl), having called only
  \<^verbatim>\<open>validator.trim\<close> and \<^verbatim>\<open>validator.isURL\<close>.
\<close>

theorem enhanceImage_whitespace_only:
  assumes "s \<noteq> []"
    and "\<forall>c \<in> set s. is_space c"
    and "validator_isURL env (JString '''') isURL_strict_options \<noteq> Inr True"
  shows "enhanceImage env (JString s) =
           ([CallTrim (JString s), CallIsURL (JString '''') isURL_strict_options],
            Inl (Error ''Invalid URL format or protocol''))"
  using assms
  by (simp add: enhanceImage_def validator_trim_def trim_ws_all_space isValidUrl_eq io_throw_def)

theorem enhanceImage_whitespace_only_witness:
  "enhanceImage (example_env (NoResponse ''timeout'') (Inl (Error ''down'')) (NoResponse ''timeout''))
     (JString [CHR 0x20, CHR 0x09, CHR 0xA0]) =
     ([CallTrim (JString [CHR 0x20, CHR 0x09, CHR 0xA0]),
       CallIsURL (JString '''') isURL_strict_options],
      Inl (Error ''Invalid URL format or protocol''))"
proof -
  have h1: "[CHR 0x20, CHR 0x09, CHR 0xA0] \<noteq> []"
    by simp
  have h2: "\<forall>c \<in> set [CHR 0x20, CHR 0x09, CHR 0xA0]. is_space c"
    by (simp add: is_space_def)
  have h3: "validator_isURL
              (example_env (NoResponse ''timeout'') (Inl (Error ''down'')) (NoResponse ''timeout''))
              (JString '''') isURL_strict_options \<noteq> Inr True"
    by (simp add: example_env_def example_urls_def)
  show ?thesis
    by (rule enhanceImage_whitespace_only [OF h1 h2 h3])
qed

section \<open>The reachability and content-type check\<close>

text \<open>
  When the header-only probe of the strict version fails outright (no usable response,
  or a status outside 2xx), the run fails with \<^verbatim>\<open>Cannot access the specified image\<close>,
  the UnreachableResource failure.
\<close>

lemma strict_probe_failure_unreachable:
  assumes "s \<noteq> []"
    and "validator_isURL env (JString (trim_ws s)) isURL_strict_options = Inr True"
    and "http_head env (JString (trim_ws s)) 5000 3 = NoResponse m
         \<or> (\<exists>st hs. http_head env (JString (trim_ws s)) 5000 3 = Response st hs
               \<and> (st < 200 \<or> 300 \<le> st))"
  shows "enhanceImage env (JString s) =
           ([CallTrim (JString s), CallIsURL (JString (trim_ws s)) isURL_strict_options,
             CallHead (JString (trim_ws s)) 5000 3],
            Inl (Error ''Cannot access the specified image''))"
  using assms
  by (auto simp add: enhanceImage_def validator_trim_def isValidUrl_eq axios_head_def
      reachability_config_def io_throw_def)

text \<open>
  C1. The claim asks for a distinct NotAnImage failure when the probe succeeds and the
  content-type header is absent or does not begin with \<^verbatim>\<open>image/\<close>. The source throws
  \<^verbatim>\<open>URL does not point to a valid image\<close> for it, but inside the \<^verbatim>\<open>try\<close> block whose
  \<^verbatim>\<open>catch\<close> rethrows every error: the run fails with
  \<^verbatim>\<open>Cannot access the specified image\<close>, exactly as for an unreachable URL.
\<close>

theorem strict_not_an_image_reported_as_unreachable:
  assumes "s \<noteq> []"
    and "validator_isURL env (JString (trim_ws s)) isURL_strict_options = Inr True"
    and "http_head env (JString (trim_ws s)) 5000 3 = Response st hs"
    and "200 \<le> st" and "st < 300"
    and "map_of hs ''content-type'' = None
         \<or> (\<exists>ct. map_of hs ''content-type'' = Some ct \<and> \<not> startsWith ct ''image/'')"
  shows "enhanceImage env (JString s) =
           ([CallTrim (JString s), CallIsURL (JString (trim_ws s)) isURL_strict_options,
             CallHead (JString (trim_ws s)) 5000 3],
            Inl (Error ''Cannot access the specified image''))"
  using assms
  by (auto simp add: enhanceImage_def validator_trim_def isValidUrl_eq axios_head_def
      reachability_config_def io_throw_def)

lemma trim_ws_example_in: "trim_ws ''https://example.com/in.png'' = ''https://example.com/in.png''"
  by (simp add: trim_ws_def is_space_def)

theorem strict_not_an_image_reported_as_unreachable_witness:
  "enhanceImage
     (example_env (Response 200 [(''content-type'', ''text/html'')])
        (Inr (JString ''https://example.com/out.png''))
        (Response 200 [(''content-length'', ''204800'')]))
     (JString ''https://example.com/in.png'') =
     ([CallTrim (JString ''https://example.com/in.png''),
       CallIsURL (JString ''https://example.com/in.png'') isURL_strict_options,
       CallHead (JString ''https://example.com/in.png'') 5000 3],
      Inl (Error ''Cannot access the specified image''))"
proof -
  let ?env = "example_env (Response 200 [(''content-type'', ''text/html'')])
        (Inr (JString ''https://example.com/out.png''))
        (Response 200 [(''content-length'', ''204800'')])"
  let ?s = "''https://example.com/in.png''"
  have h1: "?s \<noteq> []"
    by simp
  have h2: "validator_isURL ?env (JString (trim_ws ?s)) isURL_strict_options = Inr True"
    by (simp add: trim_ws_example_in example_env_def example_urls_def)
  have h3: "http_head ?env (JString (trim_ws ?s)) 5000 3 = Response 200 [(''content-type'', ''text/html'')]"
    by (simp add: trim_ws_example_in example_env_def)
  have h4: "map_of [(''content-type'', ''text/html'')] ''content-type'' = None
         \<or> (\<exists>ct. map_of [(''content-type'', ''text/html'')] ''content-type'' = Some ct
               \<and> \<not> startsWith ct ''image/'')"
    by (simp add: startsWith_def)
  have "enhanceImage ?env (JString ?s) =
           ([CallTrim (JString ?s), CallIsURL (JString (trim_ws ?s)) isURL_strict_options,
             CallHead (JString (trim_ws ?s)) 5000 3],
            Inl (Error ''Cannot access the specified image''))"
    by (rule strict_not_an_image_reported_as_unreachable [OF h1 h2 h3 _ _ h4]) simp_all
  then show ?thesis
    by (simp only: trim_ws_example_in)
qed

section \<open>Acceptable statuses of the two probes\<close>

lemma kb_label_not_Unknown: "x @ '' KB'' \<noteq> ''Unknown''"
proof
  assume "x @ '' KB'' = ''Unknown''"
  then have "last (x @ '' KB'') = last ''Unknown''"
    by (simp only:)
  then show False
    by simp
qed

text \<open>
  C6. Let the URL \<open>u\<close> (a trimmed string that the validator accepts) be answered by a
  response of status \<open>st\<close>. \<^verbatim>\<open>getFileSize\<close> requests \<open>u\<close> with a timeout of 5000 ms
  and at most 3 redirects, and returns a kilobyte label when \<open>st\<close> is 2xx or 403 and
  \<^verbatim>\<open>Unknown\<close> otherwise. The strict \<^verbatim>\<open>enhanceImage\<close> makes the same request after trimming
  and validating; when \<open>st\<close> is not 2xx it fails there with
  \<^verbatim>\<open>Cannot access the specified image\<close>, and when \<open>st\<close> is 2xx and the content-type begins
  with \<^verbatim>\<open>image/\<close> it goes on to call the provider. So on a 403 the size probe of \<open>u\<close>
  succeeds while the reachability check of \<open>u\<close> fails.
\<close>

theorem probes_differ_on_403:
  assumes "s \<noteq> []"
    and "validator_isURL env (JString (trim_ws s)) isURL_strict_options = Inr True"
    and "http_head env (JString (trim_ws s)) 5000 3 = Response st hs"
  shows "getFileSize env (JString (trim_ws s)) =
           ([CallHead (JString (trim_ws s)) 5000 3],
            if 200 \<le> st \<and> st < 300 \<or> st = 403
            then Inr (toFixed (js_div (parseInt10
                        (or_default (map_of hs ''content-length'') ''0'')) 1024) 2 @ '' KB'')
            else Inr ''Unknown'')
    \<and> take 3 (fst (enhanceImage env (JString s))) =
           [CallTrim (JString s), CallIsURL (JString (trim_ws s)) isURL_strict_options,
            CallHead (JString (trim_ws s)) 5000 3]
    \<and> (\<not> (200 \<le> st \<and> st < 300) \<longrightarrow>
          enhanceImage env (JString s) =
            ([CallTrim (JString s), CallIsURL (JString (trim_ws s)) isURL_strict_options,
              CallHead (JString (trim_ws s)) 5000 3],
             Inl (Error ''Cannot access the specified image'')))
    \<and> (200 \<le> st \<and> st < 300
          \<and> (\<exists>ct. map_of hs ''content-type'' = Some ct \<and> startsWith ct ''image/'') \<longrightarrow>
          take 4 (fst (enhanceImage env (JString s))) =
            [CallTrim (JString s), CallIsURL (JString (trim_ws s)) isURL_strict_options,
             CallHead (JString (trim_ws s)) 5000 3, CallRemini (JString (trim_ws s))])
    \<and> (st = 403 \<longrightarrow>
          snd (getFileSize env (JString (trim_ws s))) \<noteq> Inr ''Unknown''
          \<and> snd (enhanceImage env (JString s)) = Inl (Error ''Cannot access the specified image''))"
proof (intro conjI impI)
  show "getFileSize env (JString (trim_ws s)) =
           ([CallHead (JString (trim_ws s)) 5000 3],
            if 200 \<le> st \<and> st < 300 \<or> st = 403
            then Inr (toFixed (js_div (parseInt10
                        (or_default (map_of hs ''content-length'') ''0'')) 1024) 2 @ '' KB'')
            else Inr ''Unknown'')"
    using assms(3)
    by (simp add: getFileSize_def axios_head_def size_probe_config_def io_return_def)
next
  show "take 3 (fst (enhanceImage env (JString s))) =
           [CallTrim (JString s), CallIsURL (JString (trim_ws s)) isURL_strict_options,
            CallHead (JString (trim_ws s)) 5000 3]"
    using assms
    by (simp add: enhanceImage_def validator_trim_def isValidUrl_eq axios_head_def
        reachability_config_def)
next
  assume "\<not> (200 \<le> st \<and> st < 300)"
  with assms show "enhanceImage env (JString s) =
            ([CallTrim (JString s), CallIsURL (JString (trim_ws s)) isURL_strict_options,
              CallHead (JString (trim_ws s)) 5000 3],
             Inl (Error ''Cannot access the specified image''))"
    by (auto simp add: enhanceImage_def validator_trim_def isValidUrl_eq axios_head_def
        reachability_config_def io_throw_def)
next
  assume h: "200 \<le> st \<and> st < 300
          \<and> (\<exists>ct. map_of hs ''content-type'' = Some ct \<and> startsWith ct ''image/'')"
  then obtain ct where ct: "map_of hs ''content-type'' = Some ct" "startsWith ct ''image/''"
    by blast
  then have "ct \<noteq> []"
    by (auto simp add: startsWith_def)
  with assms h ct show "take 4 (fst (enhanceImage env (JString s))) =
            [CallTrim (JString s), CallIsURL (JString (trim_ws s)) isURL_strict_options,
             CallHead (JString (trim_ws s)) 5000 3, CallRemini (JString (trim_ws s))]"
    by (cases "remini env (JString (trim_ws s))")
       (simp_all add: enhanceImage_def validator_trim_def isValidUrl_eq axios_head_def
         reachability_config_def remini_call_def io_return_def io_throw_def)
next
  assume "st = 403"
  with assms(3) show "snd (getFileSize env (JString (trim_ws s))) \<noteq> Inr ''Unknown''"
    by (simp add: getFileSize_def axios_head_def size_probe_config_def io_return_def
        kb_label_not_Unknown)
next
  assume "st = 403"
  with assms show "snd (enhanceImage env (JString s)) = Inl (Error ''Cannot access the specified image'')"
    by (simp add: enhanceImage_def validator_trim_def isValidUrl_eq axios_head_def
        reachability_config_def)
qed

theorem probes_differ_on_403_witness:
  "getFileSize (example_env (Response 403 []) (Inl (Error ''down'')) (NoResponse ''timeout''))
     (JString ''https://example.com/in.png'') =
     ([CallHead (JString ''https://example.com/in.png'') 5000 3], Inr ''0.00 KB'')
   \<and> enhanceImage (example_env (Response 403 []) (Inl (Error ''down'')) (NoResponse ''timeout''))
     (JString ''https://example.com/in.png'') =
     ([CallTrim (JString ''https://example.com/in.png''),
       CallIsURL (JString ''https://example.com/in.png'') isURL_strict_options,
       CallHead (JString ''https://example.com/in.png'') 5000 3],
      Inl (Error ''Cannot access the specified image''))"
proof -
  let ?env = "example_env (Response 403 []) (Inl (Error ''down'')) (NoResponse ''timeout'')"
  let ?s = "''https://example.com/in.png''"
  have h1: "?s \<noteq> []"
    by simp
  have h2: "validator_isURL ?env (JString (trim_ws ?s)) isURL_strict_options = Inr True"
    by (simp add: trim_ws_example_in example_env_def example_urls_def)
  have h3: "http_head ?env (JString (trim_ws ?s)) 5000 3 = Response 403 []"
    by (simp add: trim_ws_example_in example_env_def)
  have z: "toFixed (js_div (parseInt10 ''0'') 1024) 2 @ '' KB'' = ''0.00 KB''"
    by (simp add: parseInt10_def is_space_def is_digit_def digits_value_def digit_val_def
        to_double_def double_exponent.simps toFixed_def place_point_def show_nat_small)
  show ?thesis
    using probes_differ_on_403 [OF h1 h2 h3]
    by (simp add: trim_ws_example_in z)
qed

section \<open>The size label\<close>










lemma parseInt10_no_digit:
  assumes "\<not> is_space c" and "c \<noteq> CHR ''+''" and "c \<noteq> CHR ''-''" and "\<not> is_digit c"
  shows "parseInt10 (c # r) = NaN"
  using assms by (simp add: parseInt10_def)


lemma getFileSize_rejected:
  assumes "http_head env u 5000 3 = NoResponse m
     \<or> (\<exists>st hs. http_head env u 5000 3 = Response st hs
           \<and> \<not> (200 \<le> st \<and> st < 300 \<or> st = 403))"
  shows "getFileSize env u = ([CallHead u 5000 3], Inr ''Unknown'')"
  using assms
  by (auto simp add: getFileSize_def axios_head_def size_probe_config_def io_return_def)










section \<open>The size probe never fails its caller\<close>

text \<open>
  The steps of the strict version before the size probe: a non-empty string whose
  trimmed form the validator accepts, a reachability probe answered 2xx with a
  content-type beginning with \<^verbatim>\<open>image/\<close>, and a provider that returns a truthy value
  the validator accepts. Then the run ends as the size probe of that value ends.
\<close>

lemma enhanceImage_reaches_size_probe:
  assumes "s \<noteq> []"
    and "validator_isURL env (JString (trim_ws s)) isURL_strict_options = Inr True"
    and "http_head env (JString (trim_ws s)) 5000 3 = Response st hs"
    and "200 \<le> st" and "st < 300"
    and "map_of hs ''content-type'' = Some ct" and "startsWith ct ''image/''"
    and "remini env (JString (trim_ws s)) = Inr v"
    and "truthy v"
    and "validator_isURL env v isURL_strict_options = Inr True"
    and "snd (getFileSize env v) = Inr label"
  shows "snd (enhanceImage env (JString s)) =
           Inr \<lparr>original_url = trim_ws s, image_data = v, image_size = label\<rparr>"
proof -
  have ct: "ct \<noteq> []"
    using assms(7) by (auto simp add: startsWith_def)
  obtain t where g: "getFileSize env v = (t, Inr label)"
    using assms(11) by (cases "getFileSize env v") simp
  show ?thesis
    using assms(1-10) ct
    by (simp add: enhanceImage_def validator_trim_def isValidUrl_eq axios_head_def
        reachability_config_def remini_call_def g io_return_def)
qed

text \<open>
  C4. \<^verbatim>\<open>getFileSize\<close> of the strict version is always fulfilled, never rejected. When
  the request ends without a usable response (network error, timeout, too many
  redirects) or with a status that is neither 2xx nor 403, its label is \<^verbatim>\<open>Unknown\<close>;
  and when every earlier step of \<^verbatim>\<open>enhanceImage\<close> has succeeded and the size probe is
  rejected, the run is fulfilled with the size label \<^verbatim>\<open>Unknown\<close>.
\<close>

theorem getFileSize_never_fails:
  "(\<exists>label. snd (getFileSize env u) = Inr label)
   \<and> (http_head env u 5000 3 = NoResponse m
        \<longrightarrow> getFileSize env u = ([CallHead u 5000 3], Inr ''Unknown''))
   \<and> (http_head env u 5000 3 = Response st hs \<and> \<not> (200 \<le> st \<and> st < 300 \<or> st = 403)
        \<longrightarrow> getFileSize env u = ([CallHead u 5000 3], Inr ''Unknown''))
   \<and> (s \<noteq> []
        \<and> validator_isURL env (JString (trim_ws s)) isURL_strict_options = Inr True
        \<and> http_head env (JString (trim_ws s)) 5000 3 = Response st1 hs1
        \<and> 200 \<le> st1 \<and> st1 < 300
        \<and> map_of hs1 ''content-type'' = Some ct \<and> startsWith ct ''image/''
        \<and> remini env (JString (trim_ws s)) = Inr v \<and> truthy v
        \<and> validator_isURL env v isURL_strict_options = Inr True
        \<and> snd (axios_head env v size_probe_config) = Inl e
        \<longrightarrow> snd (enhanceImage env (JString s)) =
              Inr \<lparr>original_url = trim_ws s, image_data = v, image_size = ''Unknown''\<rparr>)"
proof (intro conjI impI)
  obtain t r where a: "axios_head env u size_probe_config = (t, r)"
    by (cases "axios_head env u size_probe_config")
  show "\<exists>label. snd (getFileSize env u) = Inr label"
    by (cases r) (simp_all add: getFileSize_def a io_return_def Let_def)
next
  assume "http_head env u 5000 3 = NoResponse m"
  then show "getFileSize env u = ([CallHead u 5000 3], Inr ''Unknown'')"
    by (simp add: getFileSize_rejected)
next
  assume "http_head env u 5000 3 = Response st hs \<and> \<not> (200 \<le> st \<and> st < 300 \<or> st = 403)"
  then show "getFileSize env u = ([CallHead u 5000 3], Inr ''Unknown'')"
    by (intro getFileSize_rejected) blast
next
  assume h: "s \<noteq> []
        \<and> validator_isURL env (JString (trim_ws s)) isURL_strict_options = Inr True
        \<and> http_head env (JString (trim_ws s)) 5000 3 = Response st1 hs1
        \<and> 200 \<le> st1 \<and> st1 < 300
        \<and> map_of hs1 ''content-type'' = Some ct \<and> startsWith ct ''image/''
        \<and> remini env (JString (trim_ws s)) = Inr v \<and> truthy v
        \<and> validator_isURL env v isURL_strict_options = Inr True
        \<and> snd (axios_head env v size_probe_config) = Inl e"
  then have "snd (getFileSize env v) = Inr ''Unknown''"
    by (cases "axios_head env v size_probe_config") (simp add: getFileSize_def)
  with h show "snd (enhanceImage env (JString s)) =
              Inr \<lparr>original_url = trim_ws s, image_data = v, image_size = ''Unknown''\<rparr>"
    by (intro enhanceImage_reaches_size_probe [where st = st1 and hs = hs1 and ct = ct]) simp_all
qed

theorem getFileSize_never_fails_witness:
  "snd (enhanceImage
          (example_env (Response 200 [(''content-type'', ''image/png'')])
             (Inr (JString ''https://example.com/out.png''))
             (NoResponse ''timeout of 5000ms exceeded''))
          (JString ''https://example.com/in.png'')) =
     Inr \<lparr>original_url = ''https://example.com/in.png'',
          image_data = JString ''https://example.com/out.png'', image_size = ''Unknown''\<rparr>
   \<and> snd (getFileSize
          (example_env (Response 200 [(''content-type'', ''image/png'')])
             (Inr (JString ''https://example.com/out.png''))
             (Response 500 []))
          (JString ''https://example.com/out.png'')) = Inr ''Unknown''"
proof -
  let ?out = "JString ''https://example.com/out.png''"
  let ?env = "example_env (Response 200 [(''content-type'', ''image/png'')]) (Inr ?out)
                (NoResponse ''timeout of 5000ms exceeded'')"
  let ?env2 = "example_env (Response 200 [(''content-type'', ''image/png'')]) (Inr ?out)
                (Response 500 [])"
  have p: "s \<noteq> []
        \<and> validator_isURL ?env (JString (trim_ws s)) isURL_strict_options = Inr True
        \<and> http_head ?env (JString (trim_ws s)) 5000 3 = Response 200 [(''content-type'', ''image/png'')]
        \<and> (200::nat) \<le> 200 \<and> (200::nat) < 300
        \<and> map_of [(''content-type'', ''image/png'')] ''content-type'' = Some ''image/png''
        \<and> startsWith ''image/png'' ''image/''
        \<and> remini ?env (JString (trim_ws s)) = Inr ?out \<and> truthy ?out
        \<and> validator_isURL ?env ?out isURL_strict_options = Inr True
        \<and> snd (axios_head ?env ?out size_probe_config) = Inl (Error ''timeout of 5000ms exceeded'')"
    if "s = ''https://example.com/in.png''" for s
    unfolding that
    by (simp add: trim_ws_example_in example_env_def example_urls_def startsWith_def
        axios_head_def size_probe_config_def)
  have 1: "snd (enhanceImage ?env (JString ''https://example.com/in.png'')) =
     Inr \<lparr>original_url = ''https://example.com/in.png'',
          image_data = ?out, image_size = ''Unknown''\<rparr>"
    using getFileSize_never_fails [of ?env _ _ _ _ "''https://example.com/in.png''"
        200 "[(''content-type'', ''image/png'')]" "''image/png''" ?out
        "Error ''timeout of 5000ms exceeded''"] p [OF refl]
    by (simp add: trim_ws_example_in)
  have h2: "http_head ?env2 ?out 5000 3 = Response 500 []
              \<and> \<not> (200 \<le> (500::nat) \<and> (500::nat) < 300 \<or> (500::nat) = 403)"
    by (simp add: example_env_def)
  have 2: "snd (getFileSize ?env2 ?out) = Inr ''Unknown''"
    using getFileSize_never_fails [of ?env2 ?out _ 500 "[]"] h2 by simp
  show ?thesis
    using 1 2 by simp
qed

section \<open>Provider failures\<close>

lemma isValidUrl_basic_eq:
  "isValidUrl_basic env v = ([CallNewURL v], Inr (new_URL_ok env v))"
  by (simp add: isValidUrl_basic_def new_URL_def io_return_def)

text \<open>
  C5, as the claim states it, fails: the failure of the strict \<^verbatim>\<open>enhanceImage\<close> has no
  cause. Two providers that reject with different messages give the same trace and the
  same failure, so the provider's message cannot be read off it.
\<close>

theorem provider_message_dropped_counterexample:
  "enhanceImage
     (example_env (Response 200 [(''content-type'', ''image/png'')])
        (Inl (Error ''quota exceeded'')) (NoResponse ''timeout''))
     (JString ''https://example.com/in.png'')
   = enhanceImage
     (example_env (Response 200 [(''content-type'', ''image/png'')])
        (Inl (Error ''model offline'')) (NoResponse ''timeout''))
     (JString ''https://example.com/in.png'')
   \<and> snd (enhanceImage
     (example_env (Response 200 [(''content-type'', ''image/png'')])
        (Inl (Error ''quota exceeded'')) (NoResponse ''timeout''))
     (JString ''https://example.com/in.png'')) = Inl (Error ''Failed to enhance the image'')"
  by (simp add: enhanceImage_def validator_trim_def trim_ws_example_in isValidUrl_eq
      axios_head_def reachability_config_def remini_call_def example_env_def example_urls_def
      startsWith_def io_throw_def io_return_def)

text \<open>
  C5, amended. Whenever the provider is invoked and rejects, the shared \<^verbatim>\<open>enhanceImage\<close>
  (strict and basic) fails with the fixed message \<^verbatim>\<open>Failed to enhance the image\<close>,
  whatever the provider threw; only the POST handler of the inline version forwards
  the provider's message, as \<^verbatim>\<open>details\<close> of its 500 response (\<^verbatim>\<open>Unknown error occurred\<close>
  when the message is empty).
\<close>

theorem provider_failure:
  "(s \<noteq> []
      \<and> validator_isURL env (JString (trim_ws s)) isURL_strict_options = Inr True
      \<and> http_head env (JString (trim_ws s)) 5000 3 = Response st hs
      \<and> 200 \<le> st \<and> st < 300
      \<and> map_of hs ''content-type'' = Some ct \<and> startsWith ct ''image/''
      \<and> remini env (JString (trim_ws s)) = Inl e
      \<longrightarrow> enhanceImage env (JString s) =
            ([CallTrim (JString s), CallIsURL (JString (trim_ws s)) isURL_strict_options,
              CallHead (JString (trim_ws s)) 5000 3, CallRemini (JString (trim_ws s))],
             Inl (Error ''Failed to enhance the image'')))
   \<and> (truthy url \<and> new_URL_ok env url \<and> remini env url = Inl e
      \<longrightarrow> enhanceImage_basic env url =
            ([CallNewURL url, CallRemini url], Inl (Error ''Failed to enhance the image'')))
   \<and> (truthy (body_url req) \<and> new_URL_ok env (body_url req) \<and> remini env (body_url req) = Inl e
      \<longrightarrow> post_enhance_image_inline env req =
            ([CallNewURL (body_url req), CallRemini (body_url req)],
             Inr \<lparr>status_code = 500,
                  body = ErrorBody ''ENHANCEMENT_FAILED'' ''Failed to enhance the image''
                           (Some (message_or e ''Unknown error occurred''))\<rparr>))"
proof (intro conjI impI)
  assume h: "s \<noteq> []
      \<and> validator_isURL env (JString (trim_ws s)) isURL_strict_options = Inr True
      \<and> http_head env (JString (trim_ws s)) 5000 3 = Response st hs
      \<and> 200 \<le> st \<and> st < 300
      \<and> map_of hs ''content-type'' = Some ct \<and> startsWith ct ''image/''
      \<and> remini env (JString (trim_ws s)) = Inl e"
  then have "ct \<noteq> []"
    by (auto simp add: startsWith_def)
  with h show "enhanceImage env (JString s) =
            ([CallTrim (JString s), CallIsURL (JString (trim_ws s)) isURL_strict_options,
              CallHead (JString (trim_ws s)) 5000 3, CallRemini (JString (trim_ws s))],
             Inl (Error ''Failed to enhance the image''))"
    by (simp add: enhanceImage_def validator_trim_def isValidUrl_eq axios_head_def
        reachability_config_def remini_call_def io_throw_def io_return_def)
next
  assume "truthy url \<and> new_URL_ok env url \<and> remini env url = Inl e"
  then show "enhanceImage_basic env url =
            ([CallNewURL url, CallRemini url], Inl (Error ''Failed to enhance the image''))"
    by (simp add: enhanceImage_basic_def isValidUrl_basic_eq remini_call_def io_throw_def)
next
  assume "truthy (body_url req) \<and> new_URL_ok env (body_url req) \<and> remini env (body_url req) = Inl e"
  then show "post_enhance_image_inline env req =
            ([CallNewURL (body_url req), CallRemini (body_url req)],
             Inr \<lparr>status_code = 500,
                  body = ErrorBody ''ENHANCEMENT_FAILED'' ''Failed to enhance the image''
                           (Some (message_or e ''Unknown error occurred''))\<rparr>)"
    by (simp add: post_enhance_image_inline_def isValidUrl_basic_eq remini_call_def io_try_def
        io_return_def Let_def)
qed

theorem provider_failure_witness:
  "snd (enhanceImage
     (example_env (Response 200 [(''content-type'', ''image/png'')])
        (Inl (Error ''quota exceeded'')) (NoResponse ''timeout''))
     (JString ''https://example.com/in.png'')) = Inl (Error ''Failed to enhance the image'')
   \<and> snd (enhanceImage_basic
     (example_env (Response 200 [(''content-type'', ''image/png'')])
        (Inl (Error ''quota exceeded'')) (NoResponse ''timeout''))
     (JString ''https://example.com/in.png'')) = Inl (Error ''Failed to enhance the image'')
   \<and> snd (post_enhance_image_inline
     (example_env (Response 200 [(''content-type'', ''image/png'')])
        (Inl (Error ''quota exceeded'')) (NoResponse ''timeout''))
     \<lparr>body_url = JString ''https://example.com/in.png'', query_url = JUndefined\<rparr>) =
     Inr \<lparr>status_code = 500,
          body = ErrorBody ''ENHANCEMENT_FAILED'' ''Failed to enhance the image''
                   (Some ''quota exceeded'')\<rparr>"
proof -
  let ?in = "''https://example.com/in.png''"
  let ?env = "example_env (Response 200 [(''content-type'', ''image/png'')])
        (Inl (Error ''quota exceeded'')) (NoResponse ''timeout'')"
  let ?req = "\<lparr>body_url = JString ?in, query_url = JUndefined\<rparr>"
  have h1: "?in \<noteq> []
      \<and> validator_isURL ?env (JString (trim_ws ?in)) isURL_strict_options = Inr True
      \<and> http_head ?env (JString (trim_ws ?in)) 5000 3 = Response 200 [(''content-type'', ''image/png'')]
      \<and> (200::nat) \<le> 200 \<and> (200::nat) < 300
      \<and> map_of [(''content-type'', ''image/png'')] ''content-type'' = Some ''image/png''
      \<and> startsWith ''image/png'' ''image/''
      \<and> remini ?env (JString (trim_ws ?in)) = Inl (Error ''quota exceeded'')"
    by (simp add: trim_ws_example_in example_env_def example_urls_def startsWith_def)
  have h2: "truthy (JString ?in) \<and> new_URL_ok ?env (JString ?in)
      \<and> remini ?env (JString ?in) = Inl (Error ''quota exceeded'')"
    by (simp add: example_env_def example_urls_def)
  have h3: "truthy (body_url ?req) \<and> new_URL_ok ?env (body_url ?req)
      \<and> remini ?env (body_url ?req) = Inl (Error ''quota exceeded'')"
    by (simp add: example_env_def example_urls_def)
  note t = provider_failure [of ?in ?env 200 "[(''content-type'', ''image/png'')]" "''image/png''"
      "Error ''quota exceeded''" "JString ?in" ?req]
  have 1: "snd (enhanceImage ?env (JString ?in)) = Inl (Error ''Failed to enhance the image'')"
    using t h1 by simp
  have 2: "snd (enhanceImage_basic ?env (JString ?in)) = Inl (Error ''Failed to enhance the image'')"
    using t h2 by simp
  have 3: "snd (post_enhance_image_inline ?env ?req) =
     Inr \<lparr>status_code = 500,
          body = ErrorBody ''ENHANCEMENT_FAILED'' ''Failed to enhance the image''
                   (Some ''quota exceeded'')\<rparr>"
    using t h3 by (simp add: message_or_def)
  show ?thesis
    using 1 2 3 by simp
qed

section \<open>HTTP statuses\<close>

text \<open>
  C7, as the claim states it, fails for the inline version: a provider failure is
  answered with status 500, and a missing URL with the error code \<^verbatim>\<open>URL_REQUIRED\<close>.
\<close>

theorem inline_statuses_counterexample:
  "snd (post_enhance_image_inline
     (example_env (Response 200 [(''content-type'', ''image/png'')])
        (Inl (Error ''quota exceeded'')) (NoResponse ''timeout''))
     \<lparr>body_url = JString ''https://example.com/in.png'', query_url = JUndefined\<rparr>) =
     Inr \<lparr>status_code = 500,
          body = ErrorBody ''ENHANCEMENT_FAILED'' ''Failed to enhance the image''
                   (Some ''quota exceeded'')\<rparr>
   \<and> snd (post_enhance_image_inline
     (example_env (Response 200 [(''content-type'', ''image/png'')])
        (Inl (Error ''quota exceeded'')) (NoResponse ''timeout''))
     \<lparr>body_url = JUndefined, query_url = JUndefined\<rparr>) =
     Inr \<lparr>status_code = 400,
          body = ErrorBody ''URL_REQUIRED''
                   ''Please provide an image URL in the request body'' None\<rparr>"
  by (simp add: post_enhance_image_inline_def isValidUrl_basic_eq remini_call_def io_try_def
      io_return_def Let_def example_env_def example_urls_def message_or_def)

text \<open>
  C7, amended. In the strict and the basic shared version every failure of
  \<^verbatim>\<open>enhanceImage\<close>, whatever its message, is answered with status 400, the error code
  \<^verbatim>\<open>ENHANCEMENT_FAILED\<close> and the failure's message (\<^verbatim>\<open>An unexpected error occurred\<close> when
  it is empty); a result is answered with status 200; the handlers themselves never
  fail, and status 500 is answered by the global error handler only. In the inline version a
  missing URL is answered 400 \<^verbatim>\<open>URL_REQUIRED\<close>, an invalid one 400 \<^verbatim>\<open>INVALID_URL\<close>, a
  provider failure 500 \<^verbatim>\<open>ENHANCEMENT_FAILED\<close> and an unusable provider result 500
  \<^verbatim>\<open>INVALID_RESULT\<close>.
\<close>

theorem handler_statuses:
  "(snd (post_enhance_image env req) =
      (case snd (enhanceImage env (body_url req)) of
         Inr result \<Rightarrow> Inr \<lparr>status_code = 200, body = EnhancedBody result\<rparr>
       | Inl e \<Rightarrow> Inr \<lparr>status_code = 400,
                        body = ErrorBody ''ENHANCEMENT_FAILED''
                                 (message_or e ''An unexpected error occurred'') None\<rparr>))
   \<and> (snd (get_enhance_image env req) =
      (case snd (enhanceImage env (query_url req)) of
         Inr result \<Rightarrow> Inr \<lparr>status_code = 200, body = EnhancedBody result\<rparr>
       | Inl e \<Rightarrow> Inr \<lparr>status_code = 400,
                        body = ErrorBody ''ENHANCEMENT_FAILED''
                                 (message_or e ''An unexpected error occurred'') None\<rparr>))
   \<and> (snd (post_enhance_image_basic env req) =
      (case snd (enhanceImage_basic env (body_url req)) of
         Inr result \<Rightarrow> Inr \<lparr>status_code = 200, body = BasicBody result\<rparr>
       | Inl e \<Rightarrow> Inr \<lparr>status_code = 400,
                        body = ErrorBody ''ENHANCEMENT_FAILED''
                                 (message_or e ''An unexpected error occurred'') None\<rparr>))
   \<and> (snd (get_enhance_image_basic env req) =
      (case snd (enhanceImage_basic env (query_url req)) of
         Inr result \<Rightarrow> Inr \<lparr>status_code = 200, body = BasicBody result\<rparr>
       | Inl e \<Rightarrow> Inr \<lparr>status_code = 400,
                        body = ErrorBody ''ENHANCEMENT_FAILED''
                                 (message_or e ''An unexpected error occurred'') None\<rparr>))
   \<and> (\<not> truthy (body_url req) \<longrightarrow>
        post_enhance_image_inline env req =
          ([], Inr \<lparr>status_code = 400,
                    body = ErrorBody ''URL_REQUIRED''
                             ''Please provide an image URL in the request body'' None\<rparr>))
   \<and> (truthy (body_url req) \<and> \<not> new_URL_ok env (body_url req) \<longrightarrow>
        post_enhance_image_inline env req =
          ([CallNewURL (body_url req)],
           Inr \<lparr>status_code = 400,
                body = ErrorBody ''INVALID_URL'' ''The provided URL is not valid'' None\<rparr>))
   \<and> (truthy (body_url req) \<and> new_URL_ok env (body_url req)
        \<and> remini env (body_url req) = Inl e' \<longrightarrow>
        snd (post_enhance_image_inline env req) =
          Inr \<lparr>status_code = 500,
               body = ErrorBody ''ENHANCEMENT_FAILED'' ''Failed to enhance the image''
                        (Some (message_or e' ''Unknown error occurred''))\<rparr>)
   \<and> (truthy (body_url req) \<and> new_URL_ok env (body_url req)
        \<and> remini env (body_url req) = Inr v \<and> (\<not> truthy v \<or> \<not> new_URL_ok env v) \<longrightarrow>
        snd (post_enhance_image_inline env req) =
          Inr \<lparr>status_code = 500,
               body = ErrorBody ''INVALID_RESULT'' ''Enhanced image URL is invalid'' None\<rparr>)
   \<and> global_error_handler err =
        \<lparr>status_code = 500,
         body = ErrorBody ''INTERNAL_SERVER_ERROR'' ''An unexpected server error occurred'' None\<rparr>"
proof (intro conjI impI)
  show "snd (post_enhance_image env req) =
      (case snd (enhanceImage env (body_url req)) of
         Inr result \<Rightarrow> Inr \<lparr>status_code = 200, body = EnhancedBody result\<rparr>
       | Inl e \<Rightarrow> Inr \<lparr>status_code = 400,
                        body = ErrorBody ''ENHANCEMENT_FAILED''
                                 (message_or e ''An unexpected error occurred'') None\<rparr>)"
    by (cases "enhanceImage env (body_url req)")
       (simp add: post_enhance_image_def split: sum.splits)
next
  show "snd (get_enhance_image env req) =
      (case snd (enhanceImage env (query_url req)) of
         Inr result \<Rightarrow> Inr \<lparr>status_code = 200, body = EnhancedBody result\<rparr>
       | Inl e \<Rightarrow> Inr \<lparr>status_code = 400,
                        body = ErrorBody ''ENHANCEMENT_FAILED''
                                 (message_or e ''An unexpected error occurred'') None\<rparr>)"
    by (cases "enhanceImage env (query_url req)")
       (simp add: get_enhance_image_def split: sum.splits)
next
  show "snd (post_enhance_image_basic env req) =
      (case snd (enhanceImage_basic env (body_url req)) of
         Inr result \<Rightarrow> Inr \<lparr>status_code = 200, body = BasicBody result\<rparr>
       | Inl e \<Rightarrow> Inr \<lparr>status_code = 400,
                        body = ErrorBody ''ENHANCEMENT_FAILED''
                                 (message_or e ''An unexpected error occurred'') None\<rparr>)"
    by (cases "enhanceImage_basic env (body_url req)")
       (simp add: post_enhance_image_basic_def split: sum.splits)
next
  show "snd (get_enhance_image_basic env req) =
      (case snd (enhanceImage_basic env (query_url req)) of
         Inr result \<Rightarrow> Inr \<lparr>status_code = 200, body = BasicBody result\<rparr>
       | Inl e \<Rightarrow> Inr \<lparr>status_code = 400,
                        body = ErrorBody ''ENHANCEMENT_FAILED''
                                 (message_or e ''An unexpected error occurred'') None\<rparr>)"
    by (cases "enhanceImage_basic env (query_url req)")
       (simp add: get_enhance_image_basic_def split: sum.splits)
next
  assume "\<not> truthy (body_url req)"
  then show "post_enhance_image_inline env req =
          ([], Inr \<lparr>status_code = 400,
                    body = ErrorBody ''URL_REQUIRED''
                             ''Please provide an image URL in the request body'' None\<rparr>)"
    by (simp add: post_enhance_image_inline_def Let_def io_return_def)
next
  assume "truthy (body_url req) \<and> \<not> new_URL_ok env (body_url req)"
  then show "post_enhance_image_inline env req =
          ([CallNewURL (body_url req)],
           Inr \<lparr>status_code = 400,
                body = ErrorBody ''INVALID_URL'' ''The provided URL is not valid'' None\<rparr>)"
    by (simp add: post_enhance_image_inline_def Let_def isValidUrl_basic_eq io_return_def)
next
  assume "truthy (body_url req) \<and> new_URL_ok env (body_url req)
        \<and> remini env (body_url req) = Inl e'"
  then show "snd (post_enhance_image_inline env req) =
          Inr \<lparr>status_code = 500,
               body = ErrorBody ''ENHANCEMENT_FAILED'' ''Failed to enhance the image''
                        (Some (message_or e' ''Unknown error occurred''))\<rparr>"
    by (simp add: post_enhance_image_inline_def isValidUrl_basic_eq remini_call_def io_try_def
        io_return_def Let_def)
next
  assume "truthy (body_url req) \<and> new_URL_ok env (body_url req)
        \<and> remini env (body_url req) = Inr v \<and> (\<not> truthy v \<or> \<not> new_URL_ok env v)"
  then show "snd (post_enhance_image_inline env req) =
          Inr \<lparr>status_code = 500,
               body = ErrorBody ''INVALID_RESULT'' ''Enhanced image URL is invalid'' None\<rparr>"
    by (auto simp add: post_enhance_image_inline_def isValidUrl_basic_eq remini_call_def io_try_def
        io_return_def Let_def)
next
  show "global_error_handler err =
        \<lparr>status_code = 500,
         body = ErrorBody ''INTERNAL_SERVER_ERROR'' ''An unexpected server error occurred'' None\<rparr>"
    by (simp add: global_error_handler_def)
qed

theorem handler_statuses_witness:
  "snd (post_enhance_image
     (example_env (Response 200 [(''content-type'', ''image/png'')])
        (Inl (Error ''quota exceeded'')) (NoResponse ''timeout''))
     \<lparr>body_url = JUndefined, query_url = JString ''https://example.com/in.png''\<rparr>) =
     Inr \<lparr>status_code = 400,
          body = ErrorBody ''ENHANCEMENT_FAILED'' ''URL is required'' None\<rparr>
   \<and> snd (get_enhance_image
     (example_env (Response 200 [(''content-type'', ''image/png'')])
        (Inl (Error ''quota exceeded'')) (NoResponse ''timeout''))
     \<lparr>body_url = JUndefined, query_url = JString ''https://example.com/in.png''\<rparr>) =
     Inr \<lparr>status_code = 400,
          body = ErrorBody ''ENHANCEMENT_FAILED'' ''Failed to enhance the image'' None\<rparr>
   \<and> snd (post_enhance_image_inline
     (example_env (Response 200 [(''content-type'', ''image/png'')])
        (Inl (Error ''quota exceeded'')) (NoResponse ''timeout''))
     \<lparr>body_url = JUndefined, query_url = JString ''https://example.com/in.png''\<rparr>) =
     Inr \<lparr>status_code = 400,
          body = ErrorBody ''URL_REQUIRED''
                   ''Please provide an image URL in the request body'' None\<rparr>"
proof -
  let ?env = "example_env (Response 200 [(''content-type'', ''image/png'')])
        (Inl (Error ''quota exceeded'')) (NoResponse ''timeout'')"
  let ?req = "\<lparr>body_url = JUndefined, query_url = JString ''https://example.com/in.png''\<rparr>"
  have a: "snd (enhanceImage ?env (body_url ?req)) = Inl (Error ''URL is required'')"
    by (simp add: enhanceImage_def)
  have b: "snd (enhanceImage ?env (query_url ?req)) = Inl (Error ''Failed to enhance the image'')"
    by (simp add: enhanceImage_def validator_trim_def trim_ws_example_in isValidUrl_eq
      axios_head_def reachability_config_def remini_call_def example_env_def example_urls_def
      startsWith_def)
  have c: "\<not> truthy (body_url ?req)"
    by simp
  show ?thesis
    using handler_statuses [of ?env ?req] a b c
    by (simp add: message_or_def)
qed

section \<open>Concurrent runs do not interfere\<close>














lemma length_resume [simp]: "length (resume env ts j) = length ts"
  by (simp add: resume_def)


lemma length_run_schedule [simp]: "length (run_schedule env sched ts) = length ts"
  unfolding run_schedule_def by (induction sched arbitrary: ts) simp_all









end
